theory Spec2Isabelle
  imports Complex_Main "HOL-Library.Word" "HOL-Library.Sublist"
begin

section \<open>The Ali vendor adapter (controller/relay-ali.go)\<close>

text \<open>
  Go strings and byte slices are byte sequences: \<^typ>\<open>string\<close> (a list of 8-bit
  characters). Go's \<open>int\<close> is a 64-bit machine integer on the platforms the gateway is
  built for; \<open>+\<close> on it wraps around, as \<open>+\<close> on \<^typ>\<open>64 word\<close> does.
\<close>

type_synonym go_int = "64 word"

subsection \<open>Chat request translation\<close>

text \<open>
  Modelled from the spec: the canonical \<open>Message\<close> type and its \<open>StringContent\<close> method
  are declared outside the adapter's file. The data model gives a message a role and a
  content; \<open>StringContent\<close> reads the content as text.
\<close>

record Message =
  Role :: string
  Content :: string

definition StringContent :: "Message \<Rightarrow> string" where
  "StringContent message = Content message"

text \<open>Of the canonical request the translator reads the model and the messages.\<close>

record GeneralOpenAIRequest =
  Model :: string
  Messages :: "Message list"

record AliMessage =
  User :: string
  Bot :: string

record AliInput =
  Prompt :: string
  History :: "AliMessage list"

text \<open>
  \<open>AliChatRequest.Parameters\<close> is left at its zero value by the translator (the
  assignment is commented out in the source), so the field is not carried here.
\<close>

record AliChatRequest =
  Model :: string
  Input :: AliInput

text \<open>
  The loop of \<open>requestOpenAI2Ali\<close>, with its cursor \<open>i\<close>, the slice \<open>messages\<close> built so
  far and \<open>prompt\<close>. A system message appends a pair and moves the cursor by one
  (\<open>continue\<close>); another message at the last index sets the prompt and leaves the loop
  (\<open>break\<close>); any other message is paired with its successor and the cursor moves by two
  (\<open>i++\<close> in the body, then the loop's own \<open>i++\<close>).
\<close>

function request_loop ::
  "Message list \<Rightarrow> nat \<Rightarrow> AliMessage list \<Rightarrow> string \<Rightarrow> AliMessage list \<times> string"
where
  "request_loop ms i messages prompt =
     (if i < length ms then
        (if Role (ms ! i) = ''system'' then
           request_loop ms (i + 1)
             (messages @ [\<lparr>User = StringContent (ms ! i), Bot = ''Okay''\<rparr>]) prompt
         else if i = length ms - 1 then (messages, StringContent (ms ! i))
         else
           request_loop ms (i + 1 + 1)
             (messages @
               [\<lparr>User = StringContent (ms ! i), Bot = StringContent (ms ! (i + 1))\<rparr>])
             prompt)
      else (messages, prompt))"
  by pat_completeness auto
termination
  by (relation "measure (\<lambda>(ms, i, messages, prompt). length ms - i)") auto

declare request_loop.simps [simp del]

definition requestOpenAI2Ali :: "GeneralOpenAIRequest \<Rightarrow> AliChatRequest" where
  "requestOpenAI2Ali request =
     (case request_loop (Messages request) 0 [] [] of
        (messages, prompt) \<Rightarrow>
          \<lparr>AliChatRequest.Model = GeneralOpenAIRequest.Model request,
           Input = \<lparr>Prompt = prompt, History = messages\<rparr>\<rparr>)"

text \<open>
  The positions at which the cursor of \<open>request_loop\<close> stands on a whole unit boundary:
  a sequence is a sequence of units when it splits into system messages (one message each)
  and other messages followed by a partner (two messages each).
\<close>

fun whole_units :: "Message list \<Rightarrow> bool" where
  "whole_units [] = True"
| "whole_units [m] = (Role m = ''system'')"
| "whole_units (m # m' # ms) =
     (if Role m = ''system'' then whole_units (m' # ms) else whole_units ms)"

text \<open>The texts a history refers to, in order: user then bot of every pair.\<close>

definition referenced :: "AliMessage list \<Rightarrow> string list" where
  "referenced history = concat (map (\<lambda>p. [User p, Bot p]) history)"

text \<open>
  The same walk read off the list instead of the cursor: the pairs appended from a
  position on, and the prompt when the walk leaves by \<open>break\<close>. It is proved equal to
  \<open>request_loop\<close> below and serves the proofs only.
\<close>

fun walk :: "Message list \<Rightarrow> AliMessage list \<times> string option" where
  "walk [] = ([], None)"
| "walk [m] =
     (if Role m = ''system'' then ([\<lparr>User = StringContent m, Bot = ''Okay''\<rparr>], None)
      else ([], Some (StringContent m)))"
| "walk (m # m' # ms) =
     (if Role m = ''system'' then
        (\<lparr>User = StringContent m, Bot = ''Okay''\<rparr> # fst (walk (m' # ms)), snd (walk (m' # ms)))
      else
        (\<lparr>User = StringContent m, Bot = StringContent m'\<rparr> # fst (walk ms), snd (walk ms)))"

subsection \<open>Usage, errors and the vendor's replies\<close>

record AliError =
  Code :: string
  Message :: string
  RequestId :: string

record AliUsage =
  InputTokens :: go_int
  OutputTokens :: go_int
  TotalTokens :: go_int

text \<open>
  The canonical types below are declared outside the adapter's file; each record holds
  the fields the adapter reads or writes.
\<close>

record Usage =
  PromptTokens :: go_int
  CompletionTokens :: go_int
  TotalTokens :: go_int

text \<open>\<open>var usage Usage\<close>: the zero value.\<close>

definition zero_Usage :: Usage where
  "zero_Usage = \<lparr>PromptTokens = 0, CompletionTokens = 0, TotalTokens = 0\<rparr>"

record OpenAIError =
  Message :: string
  Type :: string
  Param :: string
  Code :: string

record OpenAIErrorWithStatusCode =
  OpenAIError :: OpenAIError
  StatusCode :: go_int

text \<open>
  Go errors: the sentinel \<open>io.EOF\<close>, which the code compares with \<open>==\<close>, and any other
  error with its message.
\<close>

datatype error = io_EOF | Err string

text \<open>
  \<open>errorWrapper\<close> is declared outside the adapter's file; the handlers take it as a
  parameter of this type (the error, the stage tag, the HTTP status).
\<close>

type_synonym error_wrapper = "error \<Rightarrow> string \<Rightarrow> go_int \<Rightarrow> OpenAIErrorWithStatusCode"

definition StatusInternalServerError :: go_int where
  "StatusInternalServerError = 500"

subsection \<open>Embedding reply translation\<close>

text \<open>
  A vector is copied as it is, whatever its elements are: the element type \<open>'f\<close> stands
  for \<open>float64\<close>.
\<close>

record 'f AliEmbedding =
  Embedding :: "'f list"
  TextIndex :: go_int

record 'f AliEmbeddingOutput =
  Embeddings :: "'f AliEmbedding list"

record 'f AliEmbeddingResponse = AliError +
  Output :: "'f AliEmbeddingOutput"
  Usage :: AliUsage

record 'f OpenAIEmbeddingResponseItem =
  Object :: string
  Index :: go_int
  Embedding :: "'f list"

record 'f OpenAIEmbeddingResponse =
  Object :: string
  Data :: "'f OpenAIEmbeddingResponseItem list"
  Model :: string
  Usage :: Usage

text \<open>The body of the \<open>for ... range\<close> loop: one \<open>append\<close> to \<open>Data\<close>.\<close>

definition append_item ::
  "'f OpenAIEmbeddingResponse \<Rightarrow> 'f AliEmbedding \<Rightarrow> 'f OpenAIEmbeddingResponse"
where
  "append_item openAIEmbeddingResponse item =
     openAIEmbeddingResponse
       \<lparr>Data := Data openAIEmbeddingResponse @
          [\<lparr>OpenAIEmbeddingResponseItem.Object = ''embedding'',
            Index = TextIndex item,
            OpenAIEmbeddingResponseItem.Embedding = AliEmbedding.Embedding item\<rparr>]\<rparr>"

definition embeddingResponseAli2OpenAI ::
  "'f AliEmbeddingResponse \<Rightarrow> 'f OpenAIEmbeddingResponse"
where
  "embeddingResponseAli2OpenAI response =
     foldl append_item
       \<lparr>OpenAIEmbeddingResponse.Object = ''list'',
        Data = [],
        OpenAIEmbeddingResponse.Model = ''text-embedding-v1'',
        OpenAIEmbeddingResponse.Usage =
          zero_Usage\<lparr>Usage.TotalTokens :=
            AliUsage.TotalTokens (AliEmbeddingResponse.Usage response)\<rparr>\<rparr>
       (Embeddings (AliEmbeddingResponse.Output response))"

subsection \<open>Chat reply translation\<close>

record AliOutput =
  Text :: string
  FinishReason :: string

record AliChatResponse = AliError +
  Output :: AliOutput
  Usage :: AliUsage

record OpenAITextResponseChoice =
  Index :: go_int
  Message :: Message
  FinishReason :: string

record OpenAITextResponse =
  Id :: string
  Object :: string
  Created :: go_int
  Choices :: "OpenAITextResponseChoice list"
  Usage :: Usage

text \<open>
  \<open>common.GetTimestamp()\<close> reads the clock; the translators take its reading as the
  argument \<open>now\<close>.
\<close>

definition responseAli2OpenAI :: "go_int \<Rightarrow> AliChatResponse \<Rightarrow> OpenAITextResponse" where
  "responseAli2OpenAI now response =
     (let choice =
        \<lparr>OpenAITextResponseChoice.Index = 0,
         OpenAITextResponseChoice.Message =
           \<lparr>Role = ''assistant'', Content = Text (AliChatResponse.Output response)\<rparr>,
         OpenAITextResponseChoice.FinishReason =
           AliOutput.FinishReason (AliChatResponse.Output response)\<rparr>
      in
        \<lparr>OpenAITextResponse.Id = RequestId response,
         OpenAITextResponse.Object = ''chat.completion'',
         OpenAITextResponse.Created = now,
         OpenAITextResponse.Choices = [choice],
         OpenAITextResponse.Usage =
           \<lparr>PromptTokens = InputTokens (AliChatResponse.Usage response),
            CompletionTokens = OutputTokens (AliChatResponse.Usage response),
            Usage.TotalTokens =
              InputTokens (AliChatResponse.Usage response) +
              OutputTokens (AliChatResponse.Usage response)\<rparr>\<rparr>)"

text \<open>
  A streamed chunk. \<open>FinishReason\<close> is a \<open>*string\<close> in the source: \<open>None\<close> is the nil
  pointer (unset), \<open>Some s\<close> a pointer to \<open>s\<close>.
\<close>

record Delta =
  Content :: string

record ChatCompletionsStreamResponseChoice =
  Delta :: Delta
  FinishReason :: "string option"

record ChatCompletionsStreamResponse =
  Id :: string
  Object :: string
  Created :: go_int
  Model :: string
  Choices :: "ChatCompletionsStreamResponseChoice list"

definition streamResponseAli2OpenAI ::
  "go_int \<Rightarrow> AliChatResponse \<Rightarrow> ChatCompletionsStreamResponse"
where
  "streamResponseAli2OpenAI now aliResponse =
     (let choice =
        \<lparr>Delta = \<lparr>Delta.Content = Text (AliChatResponse.Output aliResponse)\<rparr>,
         ChatCompletionsStreamResponseChoice.FinishReason = None\<rparr>;
          choice =
            (if AliOutput.FinishReason (AliChatResponse.Output aliResponse) \<noteq> ''null'' then
               choice\<lparr>ChatCompletionsStreamResponseChoice.FinishReason :=
                 Some (AliOutput.FinishReason (AliChatResponse.Output aliResponse))\<rparr>
             else choice)
      in
        \<lparr>ChatCompletionsStreamResponse.Id = RequestId aliResponse,
         ChatCompletionsStreamResponse.Object = ''chat.completion.chunk'',
         ChatCompletionsStreamResponse.Created = now,
         ChatCompletionsStreamResponse.Model = ''ernie-bot'',
         ChatCompletionsStreamResponse.Choices = [choice]\<rparr>)"

subsection \<open>The client side and the vendor's HTTP response\<close>

text \<open>
  What a handler does to the gin context: the headers it sets, the status it writes, the
  byte chunks the client accepted from \<open>c.Writer.Write\<close> and the event lines rendered by
  \<open>c.Render\<close>, oldest first. \<open>write_fault\<close> is the environment's part: the number of the
  write (counted from 0 over the accepted ones) at which the client connection fails, and
  the error \<open>Write\<close> returns then.
\<close>

record gin_Context =
  headers :: "(string \<times> string) list"
  status :: "go_int option"
  written :: "string list"
  rendered :: "string list"
  write_fault :: "(nat \<times> error) option"

definition Write :: "gin_Context \<Rightarrow> string \<Rightarrow> gin_Context \<times> error option" where
  "Write c chunk =
     (case write_fault c of
        None \<Rightarrow> (c\<lparr>written := written c @ [chunk]\<rparr>, None)
      | Some (k, err) \<Rightarrow>
          (if k = length (written c) then (c, Some err)
           else (c\<lparr>written := written c @ [chunk]\<rparr>, None)))"

definition Render :: "gin_Context \<Rightarrow> string \<Rightarrow> gin_Context" where
  "Render c data = c\<lparr>rendered := rendered c @ [data]\<rparr>"

text \<open>
  The vendor's HTTP response as the handlers use it: the status code, what
  \<open>io.ReadAll(resp.Body)\<close> returns and what \<open>resp.Body.Close()\<close> returns.
\<close>

record http_Response =
  StatusCode :: go_int
  ReadAll :: "error + string"
  Close :: "error option"

subsection \<open>The unary chat handler\<close>

text \<open>
  \<open>json.Unmarshal\<close> and \<open>json.Marshal\<close> are parameters: each fails with an error or
  yields its result. (The canonical reply and the canonical chunk hold strings, integers
  and a string pointer, on which the encoder of the standard library does not fail; the
  handlers test its error all the same, and so does the model.)
\<close>

definition aliHandler ::
  "error_wrapper \<Rightarrow> (string \<Rightarrow> error + AliChatResponse) \<Rightarrow>
   (OpenAITextResponse \<Rightarrow> error + string) \<Rightarrow>
   go_int \<Rightarrow> gin_Context \<Rightarrow> http_Response \<Rightarrow>
   gin_Context \<times> OpenAIErrorWithStatusCode option \<times> Usage option"
where
  "aliHandler errorWrapper unmarshal marshal now c resp =
     (case ReadAll resp of
        Inl err \<Rightarrow>
          (c, Some (errorWrapper err ''read_response_body_failed'' StatusInternalServerError), None)
      | Inr responseBody \<Rightarrow>
          (case Close resp of
             Some err \<Rightarrow>
               (c, Some (errorWrapper err ''close_response_body_failed'' StatusInternalServerError),
                None)
           | None \<Rightarrow>
               (case unmarshal responseBody of
                  Inl err \<Rightarrow>
                    (c, Some (errorWrapper err ''unmarshal_response_body_failed''
                        StatusInternalServerError), None)
                | Inr aliResponse \<Rightarrow>
                    (if AliError.Code aliResponse \<noteq> [] then
                       (c, Some
                          \<lparr>OpenAIError =
                             \<lparr>OpenAIError.Message = AliError.Message aliResponse,
                              Type = AliError.Code aliResponse,
                              Param = RequestId aliResponse,
                              OpenAIError.Code = AliError.Code aliResponse\<rparr>,
                           OpenAIErrorWithStatusCode.StatusCode =
                             http_Response.StatusCode resp\<rparr>, None)
                     else
                       (let fullTextResponse = responseAli2OpenAI now aliResponse in
                          case marshal fullTextResponse of
                            Inl err \<Rightarrow>
                              (c, Some (errorWrapper err ''marshal_response_body_failed''
                                  StatusInternalServerError), None)
                          | Inr jsonResponse \<Rightarrow>
                              (let c = c\<lparr>headers := headers c @
                                         [(''Content-Type'', ''application/json'')]\<rparr>;
                                   c = c\<lparr>status := Some (http_Response.StatusCode resp)\<rparr>;
                                   c = fst (Write c jsonResponse)
                               in (c, None,
                                   Some (OpenAITextResponse.Usage fullTextResponse))))))))"

subsection \<open>The streamed chat handler\<close>

text \<open>\<open>strings.TrimPrefix\<close>: the text without the prefix when it starts with it, else the text.\<close>

definition TrimPrefix :: "string \<Rightarrow> string \<Rightarrow> string" where
  "TrimPrefix s p = (if prefix p s then drop (length p) s else s)"

text \<open>
  The producer goroutine: of the tokens the scanner yields it skips those shorter than
  five bytes and those that do not start with \<open>data:\<close>, and sends the rest, without
  these five bytes, on \<open>dataChan\<close>. The result is what \<open>dataChan\<close> carries, in order, before
  \<open>stopChan\<close> fires. Every token comes with the reading \<open>common.GetTimestamp()\<close> gives
  at the moment the consumer handles its payload.
\<close>

fun producer :: "(string \<times> go_int) list \<Rightarrow> (string \<times> go_int) list" where
  "producer [] = []"
| "producer ((data, now) # tokens) =
     (if length data < 5 then producer tokens
      else if take 5 data \<noteq> ''data:'' then producer tokens
      else (drop 5 data, now) # producer tokens)"

text \<open>
  The state the consumer closure owns: the client context, the usage accumulator and the
  cumulative text of the last decoded frame.
\<close>

record stream_state =
  ctx :: gin_Context
  usage :: Usage
  lastResponseText :: string

text \<open>\<open>response.Choices[0].Delta.Content\<close>, read and assigned.\<close>

definition delta_content :: "ChatCompletionsStreamResponse \<Rightarrow> string" where
  "delta_content response =
     Delta.Content (Delta (ChatCompletionsStreamResponse.Choices response ! 0))"

definition set_delta_content ::
  "ChatCompletionsStreamResponse \<Rightarrow> string \<Rightarrow> ChatCompletionsStreamResponse"
where
  "set_delta_content response content =
     response\<lparr>ChatCompletionsStreamResponse.Choices :=
       (ChatCompletionsStreamResponse.Choices response)
         [0 := (ChatCompletionsStreamResponse.Choices response ! 0)
                 \<lparr>Delta := \<lparr>Delta.Content = content\<rparr>\<rparr>]\<rparr>"

text \<open>
  The \<open>case data := <-dataChan\<close> branch of the closure given to \<open>c.Stream\<close>. A payload
  that does not decode is logged and skipped (\<open>return true\<close>). When the chunk cannot be
  encoded nothing is rendered; the usage and the last text are updated by then.
\<close>

definition on_data ::
  "(string \<Rightarrow> error + AliChatResponse) \<Rightarrow>
   (ChatCompletionsStreamResponse \<Rightarrow> error + string) \<Rightarrow>
   go_int \<Rightarrow> string \<Rightarrow> stream_state \<Rightarrow> stream_state"
where
  "on_data unmarshal marshal now data s =
     (case unmarshal data of
        Inl err \<Rightarrow> s
      | Inr aliResponse \<Rightarrow>
          (let s =
             (if OutputTokens (AliChatResponse.Usage aliResponse) \<noteq> 0 then
                s\<lparr>usage :=
                  \<lparr>PromptTokens = InputTokens (AliChatResponse.Usage aliResponse),
                   CompletionTokens = OutputTokens (AliChatResponse.Usage aliResponse),
                   Usage.TotalTokens =
                     InputTokens (AliChatResponse.Usage aliResponse) +
                     OutputTokens (AliChatResponse.Usage aliResponse)\<rparr>\<rparr>
              else s);
               response = streamResponseAli2OpenAI now aliResponse;
               response =
                 set_delta_content response
                   (TrimPrefix (delta_content response) (lastResponseText s));
               s = s\<lparr>lastResponseText := Text (AliChatResponse.Output aliResponse)\<rparr>
           in
             (case marshal response of
                Inl err \<Rightarrow> s
              | Inr jsonResponse \<Rightarrow> s\<lparr>ctx := Render (ctx s) (''data: '' @ jsonResponse)\<rparr>)))"

text \<open>
  \<open>c.Stream\<close> calls the closure until it returns false: once for every payload on
  \<open>dataChan\<close>, in the order sent, then once more for \<open>stopChan\<close>, where it renders the
  terminal frame.
\<close>

fun consumer ::
  "(string \<Rightarrow> error + AliChatResponse) \<Rightarrow>
   (ChatCompletionsStreamResponse \<Rightarrow> error + string) \<Rightarrow>
   (string \<times> go_int) list \<Rightarrow> stream_state \<Rightarrow> stream_state"
where
  "consumer unmarshal marshal [] s = s\<lparr>ctx := Render (ctx s) ''data: [DONE]''\<rparr>"
| "consumer unmarshal marshal ((data, now) # rest) s =
     consumer unmarshal marshal rest (on_data unmarshal marshal now data s)"

text \<open>
  The handler, on the tokens the scanner yields from the vendor's body. The response
  headers set by \<open>setEventStreamHeaders\<close> (declared elsewhere) are not tracked.
\<close>

definition aliStreamHandler ::
  "error_wrapper \<Rightarrow> (string \<Rightarrow> error + AliChatResponse) \<Rightarrow>
   (ChatCompletionsStreamResponse \<Rightarrow> error + string) \<Rightarrow>
   gin_Context \<Rightarrow> (string \<times> go_int) list \<Rightarrow> http_Response \<Rightarrow>
   gin_Context \<times> OpenAIErrorWithStatusCode option \<times> Usage option"
where
  "aliStreamHandler errorWrapper unmarshal marshal c tokens resp =
     (let s = consumer unmarshal marshal (producer tokens)
                \<lparr>ctx = c, usage = zero_Usage, lastResponseText = []\<rparr>
      in
        (case Close resp of
           Some err \<Rightarrow>
             (ctx s,
              Some (errorWrapper err ''close_response_body_failed'' StatusInternalServerError),
              None)
         | None \<Rightarrow> (ctx s, None, Some (usage s))))"

subsection \<open>The text-to-speech relay\<close>

record AliHeader =
  Action :: string
  Streaming :: string
  TaskID :: string
  Event :: string

text \<open>Of the payload of a control frame the relay reads \<open>Payload.Usage.Characters\<close>.\<close>

record AliPayloadUsage =
  Characters :: go_int

record AliPayload =
  Usage :: AliPayloadUsage

record AliWSSMessage =
  Header :: AliHeader
  Payload :: AliPayload

definition TextMessage :: go_int where
  "TextMessage = 1"

definition BinaryMessage :: go_int where
  "BinaryMessage = 2"

definition chunkSize :: nat where
  "chunkSize = 1024"

text \<open>
  What one call of \<open>conn.ReadMessage()\<close> returns: an error, or a message type with its
  data.
\<close>

datatype read_result = ReadError error | ReadMessage go_int string

text \<open>
  The socket as the relay meets it: the outcome of \<open>Dial\<close>, the outcome of \<open>WriteJSON\<close>
  and what the successive calls of \<open>ReadMessage\<close> return. When the list is used up the
  next read never returns.
\<close>

record websocket_Conn =
  Dial :: "error option"
  WriteJSON :: "error option"
  Reads :: "read_result list"

text \<open>
  The inner loop over one binary frame: \<open>audioData[i:end]\<close> is written for
  \<open>i = 0, chunkSize, 2 * chunkSize, ...\<close> while \<open>i < len(audioData)\<close>; a failed write leaves
  the loop with its error.
\<close>

function write_chunks :: "nat \<Rightarrow> string \<Rightarrow> gin_Context \<Rightarrow> gin_Context \<times> error option" where
  "write_chunks i audioData c =
     (if i < length audioData then
        (let end = (if i + chunkSize > length audioData then length audioData
                    else i + chunkSize);
             chunk = take (end - i) (drop i audioData)
         in
           (case Write c chunk of
              (c, Some writeErr) \<Rightarrow> (c, Some writeErr)
            | (c, None) \<Rightarrow> write_chunks (i + chunkSize) audioData c))
      else (c, None))"
  by pat_completeness auto
termination
  by (relation "measure (\<lambda>(i, audioData, c). length audioData - i)")
    (auto simp: chunkSize_def)

declare write_chunks.simps [simp del]

text \<open>
  The \<open>for\<close> loop of \<open>aliTTSHandler\<close> over the results of \<open>ReadMessage\<close>. \<open>json.Unmarshal\<close>
  into \<open>msg\<close> is a parameter that yields \<open>msg\<close> as the call leaves it: its error is
  assigned and never read. \<open>tts_usage\<close> is the handler's variable \<open>usage\<close>. The result is
  \<open>None\<close> when the call does not return.
\<close>

fun read_loop ::
  "error_wrapper \<Rightarrow> (string \<Rightarrow> AliWSSMessage) \<Rightarrow> read_result list \<Rightarrow> Usage \<Rightarrow> gin_Context \<Rightarrow>
   gin_Context \<times> (OpenAIErrorWithStatusCode option \<times> Usage option) option"
where
  "read_loop errorWrapper unmarshal [] tts_usage c = (c, None)"
| "read_loop errorWrapper unmarshal (ReadError err # reads) tts_usage c =
     (if err = io_EOF then (c, Some (None, Some tts_usage))
      else (c, Some (Some (errorWrapper err ''wss_read_msg_failed'' StatusInternalServerError),
                     None)))"
| "read_loop errorWrapper unmarshal (ReadMessage messageType audioData # reads) tts_usage c =
     (if messageType = TextMessage then
        (let msg = unmarshal audioData in
           if Event (Header msg) = ''task-finished'' then
             (c, Some (None,
                Some (tts_usage\<lparr>Usage.TotalTokens := Characters (AliPayload.Usage (Payload msg))\<rparr>)))
           else read_loop errorWrapper unmarshal reads tts_usage c)
      else if messageType = BinaryMessage then
        (case write_chunks 0 audioData c of
           (c, Some writeErr) \<Rightarrow>
             (c, Some (Some (errorWrapper writeErr ''write_audio_failed''
                         StatusInternalServerError), None))
         | (c, None) \<Rightarrow> read_loop errorWrapper unmarshal reads tts_usage c)
      else read_loop errorWrapper unmarshal reads tts_usage c)"

definition aliTTSHandler ::
  "error_wrapper \<Rightarrow> (string \<Rightarrow> AliWSSMessage) \<Rightarrow> gin_Context \<Rightarrow> websocket_Conn \<Rightarrow>
   gin_Context \<times> (OpenAIErrorWithStatusCode option \<times> Usage option) option"
where
  "aliTTSHandler errorWrapper unmarshal c conn =
     (case Dial conn of
        Some err \<Rightarrow>
          (c, Some (Some (errorWrapper err ''wss_conn_failed'' StatusInternalServerError), None))
      | None \<Rightarrow>
          (case WriteJSON conn of
             Some err \<Rightarrow>
               (c, Some (Some (errorWrapper err ''wss_write_msg_failed''
                           StatusInternalServerError), None))
           | None \<Rightarrow> read_loop errorWrapper unmarshal (Reads conn) zero_Usage c))"

subsection \<open>Notions of the specification\<close>

text \<open>
  The deltas the specification asks for: every cumulative text with the cumulative text
  before it removed as a prefix, the first one against the text \<open>previous\<close>.
\<close>

fun deltas :: "string \<Rightarrow> string list \<Rightarrow> string list" where
  "deltas previous [] = []"
| "deltas previous (S # Ss) = TrimPrefix S previous # deltas S Ss"

text \<open>
  The successive chunks of at most \<open>chunkSize\<close> bytes of a frame: bytes
  \<open>0 .. chunkSize - 1\<close>, then \<open>chunkSize .. 2 * chunkSize - 1\<close>, and so on to the end.
  \<open>chunk_count n\<close> is their number for a frame of \<open>n\<close> bytes: \<open>n / chunkSize\<close>, rounded up.
\<close>

definition chunk_count :: "nat \<Rightarrow> nat" where
  "chunk_count n = (n + (chunkSize - 1)) div chunkSize"

definition chunks_of :: "string \<Rightarrow> string list" where
  "chunks_of audioData =
     map (\<lambda>k. take chunkSize (drop (k * chunkSize) audioData))
       [0 ..< chunk_count (length audioData)]"

text \<open>
  A read that ends the relay's loop: a read error, or a text frame whose event is
  \<open>task-finished\<close>.
\<close>

fun terminal :: "(string \<Rightarrow> AliWSSMessage) \<Rightarrow> read_result \<Rightarrow> bool" where
  "terminal unmarshal (ReadError err) = True"
| "terminal unmarshal (ReadMessage messageType audioData) =
     (messageType = TextMessage \<and> Event (Header (unmarshal audioData)) = ''task-finished'')"

text \<open>The binary frames received: those read before the first read that ends the loop.\<close>

definition binary_frames :: "(string \<Rightarrow> AliWSSMessage) \<Rightarrow> read_result list \<Rightarrow> string list" where
  "binary_frames unmarshal reads =
     concat (map (\<lambda>r. case r of
                        ReadError err \<Rightarrow> []
                      | ReadMessage messageType audioData \<Rightarrow>
                          (if messageType = BinaryMessage then [audioData] else []))
              (takeWhile (\<lambda>r. \<not> terminal unmarshal r) reads))"

subsection \<open>Sample inputs\<close>

text \<open>
  Concrete parameters on which the theorems below are run: an \<open>errorWrapper\<close> that keeps
  the error's message and the stage tag, an untouched client context, a decoder of
  stream payloads that rejects the payload \<open>oops\<close> and reads any other payload as the
  cumulative text itself, an encoder that prints the delta of a chunk, and a decoder of
  control frames that reads the frame's text as its event.
\<close>

definition sample_errorWrapper :: error_wrapper where
  "sample_errorWrapper err code statusCode =
     \<lparr>OpenAIError =
        \<lparr>OpenAIError.Message = (case err of io_EOF \<Rightarrow> ''EOF'' | Err msg \<Rightarrow> msg),
         Type = ''one_api_error'', Param = [], OpenAIError.Code = code\<rparr>,
      OpenAIErrorWithStatusCode.StatusCode = statusCode\<rparr>"

definition sample_Context :: gin_Context where
  "sample_Context =
     \<lparr>headers = [], status = None, written = [], rendered = [], write_fault = None\<rparr>"

definition sample_frame :: "string \<Rightarrow> AliChatResponse" where
  "sample_frame text =
     \<lparr>AliError.Code = [], AliError.Message = [], RequestId = ''req-1'',
      AliChatResponse.Output = \<lparr>Text = text, AliOutput.FinishReason = ''null''\<rparr>,
      AliChatResponse.Usage =
        \<lparr>InputTokens = 3, OutputTokens = of_nat (length text), AliUsage.TotalTokens = 0\<rparr>\<rparr>"

definition sample_unmarshal :: "string \<Rightarrow> error + AliChatResponse" where
  "sample_unmarshal data =
     (if data = ''oops'' then Inl (Err ''invalid character'') else Inr (sample_frame data))"

definition sample_marshal :: "ChatCompletionsStreamResponse \<Rightarrow> error + string" where
  "sample_marshal response = Inr (delta_content response)"

definition sample_control :: "string \<Rightarrow> AliWSSMessage" where
  "sample_control data =
     \<lparr>Header = \<lparr>Action = [], Streaming = [], TaskID = ''task-1'', Event = data\<rparr>,
      Payload = \<lparr>AliPayload.Usage = \<lparr>Characters = 42\<rparr>\<rparr>\<rparr>"

section \<open>Properties of the chat request translator\<close>

lemma walk_system:
  "Role m = ''system'' \<Longrightarrow>
     walk (m # ms) = (\<lparr>User = StringContent m, Bot = ''Okay''\<rparr> # fst (walk ms), snd (walk ms))"
  by (cases ms) simp_all

lemma walk_pair:
  "Role m \<noteq> ''system'' \<Longrightarrow>
     walk (m # m' # ms) =
       (\<lparr>User = StringContent m, Bot = StringContent m'\<rparr> # fst (walk ms), snd (walk ms))"
  by simp

text \<open>The cursor loop started at \<open>i\<close> does what the list walk does on the messages from \<open>i\<close> on.\<close>

lemma request_loop_walk:
  "request_loop ms i messages prompt =
     (messages @ fst (walk (drop i ms)),
      case snd (walk (drop i ms)) of None \<Rightarrow> prompt | Some p \<Rightarrow> p)"
proof (induction ms i messages prompt rule: request_loop.induct)
  case (1 ms i messages prompt)
  show ?case
  proof (cases "i < length ms")
    case False
    then show ?thesis by (subst request_loop.simps) simp
  next
    case inb: True
    then have d: "drop i ms = ms ! i # drop (Suc i) ms"
      by (simp add: Cons_nth_drop_Suc)
    show ?thesis
    proof (cases "Role (ms ! i) = ''system''")
      case True
      with inb "1.IH"(1) d show ?thesis
        by (subst request_loop.simps) (simp add: walk_system)
    next
      case ns: False
      show ?thesis
      proof (cases "i = length ms - 1")
        case True
        with inb have "drop (Suc i) ms = []" by simp
        with d have "drop i ms = [ms ! i]" by simp
        with inb ns True show ?thesis
          by (subst request_loop.simps) simp
      next
        case False
        with inb have "Suc i < length ms" by simp
        then have d2: "drop (Suc i) ms = ms ! Suc i # drop (Suc (Suc i)) ms"
          by (simp add: Cons_nth_drop_Suc)
        from inb ns False "1.IH"(2) d d2 show ?thesis
          by (subst request_loop.simps) (simp add: walk_pair)
      qed
    qed
  qed
qed

lemma requestOpenAI2Ali_walk:
  "History (Input (requestOpenAI2Ali request)) = fst (walk (Messages request))"
  "Prompt (Input (requestOpenAI2Ali request)) =
     (case snd (walk (Messages request)) of None \<Rightarrow> [] | Some p \<Rightarrow> p)"
  by (simp_all add: requestOpenAI2Ali_def request_loop_walk)

lemma walk_no_system:
  "\<forall>m \<in> set ms. Role m \<noteq> ''system'' \<Longrightarrow>
     length (fst (walk ms)) = length ms div 2 \<and>
     snd (walk ms) = (if odd (length ms) then Some (StringContent (last ms)) else None) \<and>
     referenced (fst (walk ms)) @ (case snd (walk ms) of None \<Rightarrow> [] | Some p \<Rightarrow> [p]) =
       map StringContent ms \<and>
     (even (length ms) \<and> ms \<noteq> [] \<longrightarrow> Bot (last (fst (walk ms))) = StringContent (last ms))"
proof (induction ms rule: walk.induct)
  case 1
  then show ?case by (simp add: referenced_def)
next
  case (2 m)
  then show ?case by (simp add: referenced_def)
next
  case (3 m m' ms)
  then have ih: "length (fst (walk ms)) = length ms div 2 \<and>
     snd (walk ms) = (if odd (length ms) then Some (StringContent (last ms)) else None) \<and>
     referenced (fst (walk ms)) @ (case snd (walk ms) of None \<Rightarrow> [] | Some p \<Rightarrow> [p]) =
       map StringContent ms \<and>
     (even (length ms) \<and> ms \<noteq> [] \<longrightarrow> Bot (last (fst (walk ms))) = StringContent (last ms))"
    by simp
  from "3.prems" have ns: "Role m \<noteq> ''system''" by simp
  have ne: "even (length ms) \<Longrightarrow> ms \<noteq> [] \<Longrightarrow> fst (walk ms) \<noteq> []"
  proof -
    assume "even (length ms)" "ms \<noteq> []"
    then have "2 \<le> length ms" by (cases ms) (auto simp: Suc_le_eq intro: Suc_leI)
    with ih have "0 < length (fst (walk ms))" by simp
    then show ?thesis by simp
  qed
  from ih ns ne show ?case
    by (cases "ms = []") (auto simp: referenced_def)
qed

text \<open>
  C2, as the code has it. For a message sequence of length \<open>N\<close> without system messages
  the translator produces exactly \<open>N div 2\<close> history pairs (the floor of \<open>N / 2\<close>, which is
  the floor of \<open>(N - 1) / 2\<close> only when \<open>N\<close> is odd). When \<open>N\<close> is odd the prompt is the
  content of the last message. When \<open>N\<close> is even and not zero the last message is the bot
  half of the last pair and the prompt stays empty. The user and bot texts of the pairs,
  followed by the prompt when \<open>N\<close> is odd, are the message contents in order: every
  message is referenced once and never twice.
\<close>

theorem history_pairing:
  assumes "\<forall>m \<in> set (Messages request). Role m \<noteq> ''system''"
  shows "length (History (Input (requestOpenAI2Ali request))) = length (Messages request) div 2 \<and>
    (odd (length (Messages request)) \<longrightarrow>
       Prompt (Input (requestOpenAI2Ali request)) = StringContent (last (Messages request))) \<and>
    (even (length (Messages request)) \<and> Messages request \<noteq> [] \<longrightarrow>
       Bot (last (History (Input (requestOpenAI2Ali request)))) =
         StringContent (last (Messages request)) \<and>
       Prompt (Input (requestOpenAI2Ali request)) = []) \<and>
    referenced (History (Input (requestOpenAI2Ali request))) @
      (if odd (length (Messages request)) then [Prompt (Input (requestOpenAI2Ali request))] else []) =
      map StringContent (Messages request)"
  using walk_no_system [OF assms] by (auto simp: requestOpenAI2Ali_walk)

theorem history_pairing_witness:
  "''system'' \<notin> set (map Role
      [\<lparr>Role = ''user'', Content = ''hi''\<rparr>, \<lparr>Role = ''assistant'', Content = ''hello''\<rparr>,
       \<lparr>Role = ''user'', Content = ''weather?''\<rparr>]) \<and>
   History (Input (requestOpenAI2Ali
     \<lparr>GeneralOpenAIRequest.Model = ''qwen-turbo'',
      Messages =
        [\<lparr>Role = ''user'', Content = ''hi''\<rparr>, \<lparr>Role = ''assistant'', Content = ''hello''\<rparr>,
         \<lparr>Role = ''user'', Content = ''weather?''\<rparr>]\<rparr>)) =
     [\<lparr>User = ''hi'', Bot = ''hello''\<rparr>] \<and>
   Prompt (Input (requestOpenAI2Ali
     \<lparr>GeneralOpenAIRequest.Model = ''qwen-turbo'',
      Messages =
        [\<lparr>Role = ''user'', Content = ''hi''\<rparr>, \<lparr>Role = ''assistant'', Content = ''hello''\<rparr>,
         \<lparr>Role = ''user'', Content = ''weather?''\<rparr>]\<rparr>)) = ''weather?'' \<and>
   length (History (Input (requestOpenAI2Ali
     \<lparr>GeneralOpenAIRequest.Model = ''qwen-turbo'',
      Messages =
        [\<lparr>Role = ''user'', Content = ''hi''\<rparr>, \<lparr>Role = ''assistant'', Content = ''hello''\<rparr>,
         \<lparr>Role = ''user'', Content = ''weather?''\<rparr>,
         \<lparr>Role = ''assistant'', Content = ''sunny''\<rparr>]\<rparr>))) = 2 \<and>
   Bot (last (History (Input (requestOpenAI2Ali
     \<lparr>GeneralOpenAIRequest.Model = ''qwen-turbo'',
      Messages =
        [\<lparr>Role = ''user'', Content = ''hi''\<rparr>, \<lparr>Role = ''assistant'', Content = ''hello''\<rparr>,
         \<lparr>Role = ''user'', Content = ''weather?''\<rparr>,
         \<lparr>Role = ''assistant'', Content = ''sunny''\<rparr>]\<rparr>)))) = ''sunny''"
  using
    history_pairing [of "\<lparr>GeneralOpenAIRequest.Model = ''qwen-turbo'',
      Messages =
        [\<lparr>Role = ''user'', Content = ''hi''\<rparr>, \<lparr>Role = ''assistant'', Content = ''hello''\<rparr>,
         \<lparr>Role = ''user'', Content = ''weather?''\<rparr>]\<rparr>"]
    history_pairing [of "\<lparr>GeneralOpenAIRequest.Model = ''qwen-turbo'',
      Messages =
        [\<lparr>Role = ''user'', Content = ''hi''\<rparr>, \<lparr>Role = ''assistant'', Content = ''hello''\<rparr>,
         \<lparr>Role = ''user'', Content = ''weather?''\<rparr>,
         \<lparr>Role = ''assistant'', Content = ''sunny''\<rparr>]\<rparr>"]
  by (simp add: StringContent_def requestOpenAI2Ali_def request_loop.simps)

text \<open>
  The claim's count fails for every even \<open>N > 0\<close>. Two messages, a user turn and its reply,
  give one history pair, where the floor of \<open>(2 - 1) / 2\<close> is zero.
\<close>

theorem history_pairing_counterexample:
  "''system'' \<notin> set (map Role
      [\<lparr>Role = ''user'', Content = ''hi''\<rparr>, \<lparr>Role = ''assistant'', Content = ''hello''\<rparr>]) \<and>
   History (Input (requestOpenAI2Ali
     \<lparr>GeneralOpenAIRequest.Model = ''qwen-turbo'',
      Messages =
        [\<lparr>Role = ''user'', Content = ''hi''\<rparr>,
         \<lparr>Role = ''assistant'', Content = ''hello''\<rparr>]\<rparr>)) =
     [\<lparr>User = ''hi'', Bot = ''hello''\<rparr>] \<and>
   length (History (Input (requestOpenAI2Ali
     \<lparr>GeneralOpenAIRequest.Model = ''qwen-turbo'',
      Messages =
        [\<lparr>Role = ''user'', Content = ''hi''\<rparr>,
         \<lparr>Role = ''assistant'', Content = ''hello''\<rparr>]\<rparr>))) \<noteq>
     (length [\<lparr>Role = ''user'', Content = ''hi''\<rparr>,
              \<lparr>Role = ''assistant'', Content = ''hello''\<rparr>] - 1) div 2"
  by (simp add: StringContent_def requestOpenAI2Ali_def request_loop.simps)

lemma walk_append:
  "whole_units pre \<Longrightarrow> walk (pre @ ms) = (fst (walk pre) @ fst (walk ms), snd (walk ms))"
proof (induction pre rule: whole_units.induct)
  case 1
  then show ?case by simp
next
  case (2 m)
  then show ?case by (simp add: walk_system)
next
  case (3 m m' pre)
  then show ?case by (auto simp: walk_system)
qed

text \<open>
  C4, as the code has it. The role test is applied to the message under the cursor. A
  system message that the cursor reaches, that is one whose predecessors form whole
  units of the walk (system messages alone, other messages with their partner), becomes
  the pair of its content and \<open>Okay\<close>, and the messages after it are translated as they
  would be on their own: the conversion consumes no second message.
\<close>

theorem system_priming:
  assumes "whole_units pre" and "Role m = ''system''"
  shows "History (Input (requestOpenAI2Ali (request\<lparr>Messages := pre @ m # rest\<rparr>))) =
      History (Input (requestOpenAI2Ali (request\<lparr>Messages := pre\<rparr>))) @
      \<lparr>User = StringContent m, Bot = ''Okay''\<rparr> #
      History (Input (requestOpenAI2Ali (request\<lparr>Messages := rest\<rparr>))) \<and>
    Prompt (Input (requestOpenAI2Ali (request\<lparr>Messages := pre @ m # rest\<rparr>))) =
      Prompt (Input (requestOpenAI2Ali (request\<lparr>Messages := rest\<rparr>)))"
  using assms by (simp add: requestOpenAI2Ali_walk walk_append walk_system)

theorem system_priming_witness:
  "whole_units [\<lparr>Role = ''user'', Content = ''hi''\<rparr>, \<lparr>Role = ''assistant'', Content = ''hello''\<rparr>] \<and>
   History (Input (requestOpenAI2Ali
     \<lparr>GeneralOpenAIRequest.Model = ''qwen-turbo'',
      Messages =
        [\<lparr>Role = ''user'', Content = ''hi''\<rparr>, \<lparr>Role = ''assistant'', Content = ''hello''\<rparr>,
         \<lparr>Role = ''system'', Content = ''be terse''\<rparr>,
         \<lparr>Role = ''user'', Content = ''weather?''\<rparr>]\<rparr>)) =
     [\<lparr>User = ''hi'', Bot = ''hello''\<rparr>, \<lparr>User = ''be terse'', Bot = ''Okay''\<rparr>] \<and>
   Prompt (Input (requestOpenAI2Ali
     \<lparr>GeneralOpenAIRequest.Model = ''qwen-turbo'',
      Messages =
        [\<lparr>Role = ''user'', Content = ''hi''\<rparr>, \<lparr>Role = ''assistant'', Content = ''hello''\<rparr>,
         \<lparr>Role = ''system'', Content = ''be terse''\<rparr>,
         \<lparr>Role = ''user'', Content = ''weather?''\<rparr>]\<rparr>)) = ''weather?''"
  using system_priming
    [where pre = "[\<lparr>Role = ''user'', Content = ''hi''\<rparr>, \<lparr>Role = ''assistant'', Content = ''hello''\<rparr>]"
       and m = "\<lparr>Role = ''system'', Content = ''be terse''\<rparr>"
       and request = "\<lparr>GeneralOpenAIRequest.Model = ''qwen-turbo'', Messages = []\<rparr>"
       and rest = "[\<lparr>Role = ''user'', Content = ''weather?''\<rparr>]"]
  by (simp add: StringContent_def requestOpenAI2Ali_def request_loop.simps)

text \<open>
  A system message that follows a message the cursor pairs is not primed: it is consumed
  as the bot text of that pair, and no pair with \<open>Okay\<close> is made for it.
\<close>

theorem system_priming_counterexample:
  "History (Input (requestOpenAI2Ali
     \<lparr>GeneralOpenAIRequest.Model = ''qwen-turbo'',
      Messages =
        [\<lparr>Role = ''user'', Content = ''hi''\<rparr>,
         \<lparr>Role = ''system'', Content = ''be terse''\<rparr>]\<rparr>)) =
     [\<lparr>User = ''hi'', Bot = ''be terse''\<rparr>] \<and>
   \<lparr>User = ''be terse'', Bot = ''Okay''\<rparr> \<notin> set (History (Input (requestOpenAI2Ali
     \<lparr>GeneralOpenAIRequest.Model = ''qwen-turbo'',
      Messages =
        [\<lparr>Role = ''user'', Content = ''hi''\<rparr>,
         \<lparr>Role = ''system'', Content = ''be terse''\<rparr>]\<rparr>)))"
  by (simp add: StringContent_def requestOpenAI2Ali_def request_loop.simps)

text \<open>
  The other positions: a system message right after an unpaired message of another role
  is that message's partner, and every position is of one of the two kinds.
\<close>

lemma system_as_partner:
  assumes "whole_units pre" and "Role u \<noteq> ''system''"
  shows "History (Input (requestOpenAI2Ali (request\<lparr>Messages := pre @ u # m # rest\<rparr>))) =
      History (Input (requestOpenAI2Ali (request\<lparr>Messages := pre\<rparr>))) @
      \<lparr>User = StringContent u, Bot = StringContent m\<rparr> #
      History (Input (requestOpenAI2Ali (request\<lparr>Messages := rest\<rparr>)))"
  using assms by (simp add: requestOpenAI2Ali_walk walk_append)

lemma whole_units_system: "Role m = ''system'' \<Longrightarrow> whole_units (m # ms) = whole_units ms"
  by (cases ms) simp_all

lemma units_dichotomy:
  "whole_units ms \<or> (\<exists>pre u. ms = pre @ [u] \<and> whole_units pre \<and> Role u \<noteq> ''system'')"
proof (induction ms rule: whole_units.induct)
  case 1
  then show ?case by simp
next
  case (2 m)
  then show ?case by auto
next
  case (3 m m' ms)
  show ?case
  proof (cases "Role m = ''system''")
    case True
    with 3 consider "whole_units (m' # ms)"
      | pre u where "m' # ms = pre @ [u]" "whole_units pre" "Role u \<noteq> ''system''"
      by auto
    then show ?thesis
    proof cases
      case 1
      with True show ?thesis by simp
    next
      case 2
      with True have "m # m' # ms = (m # pre) @ [u] \<and> whole_units (m # pre) \<and> Role u \<noteq> ''system''"
        by (simp add: whole_units_system)
      then show ?thesis by blast
    qed
  next
    case False
    with 3 consider "whole_units ms"
      | pre u where "ms = pre @ [u]" "whole_units pre" "Role u \<noteq> ''system''"
      by auto
    then show ?thesis
    proof cases
      case 1
      with False show ?thesis by simp
    next
      case 2
      with False have "m # m' # ms = (m # m' # pre) @ [u] \<and> whole_units (m # m' # pre) \<and>
          Role u \<noteq> ''system''"
        by simp
      then show ?thesis by blast
    qed
  qed
qed

section \<open>Properties of the embedding translator\<close>

lemma Data_foldl_append_item:
  "Data (foldl append_item r items) =
     Data r @
     map (\<lambda>item. \<lparr>OpenAIEmbeddingResponseItem.Object = ''embedding'', Index = TextIndex item,
                   OpenAIEmbeddingResponseItem.Embedding = AliEmbedding.Embedding item\<rparr>) items"
  by (induction items arbitrary: r) (simp_all add: append_item_def)

text \<open>
  C3, as the code has it. The canonical list keeps the order of the vendor's response
  array: it has one item per returned embedding, and the item at a position carries the
  vector returned at that position together with that vector's \<open>text_index\<close> in its
  \<open>Index\<close> field. A vector is found by the \<open>Index\<close> field of its item, not by the
  position of the item.
\<close>

theorem embedding_order:
  "Data (embeddingResponseAli2OpenAI response) =
     map (\<lambda>item. \<lparr>OpenAIEmbeddingResponseItem.Object = ''embedding'', Index = TextIndex item,
                   OpenAIEmbeddingResponseItem.Embedding = AliEmbedding.Embedding item\<rparr>)
       (Embeddings (AliEmbeddingResponse.Output response))"
  by (simp add: embeddingResponseAli2OpenAI_def Data_foldl_append_item)

text \<open>
  The reply of scenario C: the vector \<open>[.1, .2]\<close> with index 1 stays at position 0, the
  vector \<open>[.9]\<close> with index 0 at position 1.
\<close>

theorem embedding_order_counterexample:
  "Data (embeddingResponseAli2OpenAI
     \<lparr>AliError.Code = [], AliError.Message = [], RequestId = ''req-1'',
      AliEmbeddingResponse.Output =
        \<lparr>Embeddings =
           [\<lparr>AliEmbedding.Embedding = [0.1, 0.2 :: real], TextIndex = 1\<rparr>,
            \<lparr>AliEmbedding.Embedding = [0.9], TextIndex = 0\<rparr>]\<rparr>,
      AliEmbeddingResponse.Usage =
        \<lparr>InputTokens = 0, OutputTokens = 0, AliUsage.TotalTokens = 3\<rparr>\<rparr>) =
     [\<lparr>OpenAIEmbeddingResponseItem.Object = ''embedding'', Index = 1,
       OpenAIEmbeddingResponseItem.Embedding = [0.1, 0.2]\<rparr>,
      \<lparr>OpenAIEmbeddingResponseItem.Object = ''embedding'', Index = 0,
       OpenAIEmbeddingResponseItem.Embedding = [0.9]\<rparr>] \<and>
   OpenAIEmbeddingResponseItem.Embedding (Data (embeddingResponseAli2OpenAI
     \<lparr>AliError.Code = [], AliError.Message = [], RequestId = ''req-1'',
      AliEmbeddingResponse.Output =
        \<lparr>Embeddings =
           [\<lparr>AliEmbedding.Embedding = [0.1, 0.2 :: real], TextIndex = 1\<rparr>,
            \<lparr>AliEmbedding.Embedding = [0.9], TextIndex = 0\<rparr>]\<rparr>,
      AliEmbeddingResponse.Usage =
        \<lparr>InputTokens = 0, OutputTokens = 0, AliUsage.TotalTokens = 3\<rparr>\<rparr>) ! 0) \<noteq> [0.9]"
  by (simp add: embeddingResponseAli2OpenAI_def append_item_def zero_Usage_def)

section \<open>Properties of the chat reply translation\<close>

text \<open>
  C10. In the chunk \<open>streamResponseAli2OpenAI\<close> builds, the finish reason of the one
  choice is unset exactly when the vendor's finish reason is the literal \<open>null\<close>; for
  every other value it is set to that value. The empty string, which the decoder leaves
  when the vendor frame has no \<open>finish_reason\<close> field, is such a value: the chunk's finish
  reason is then present and empty.
\<close>

theorem finish_reason_mapping:
  "map ChatCompletionsStreamResponseChoice.FinishReason
     (ChatCompletionsStreamResponse.Choices (streamResponseAli2OpenAI now aliResponse)) =
     [if AliOutput.FinishReason (AliChatResponse.Output aliResponse) = ''null'' then None
      else Some (AliOutput.FinishReason (AliChatResponse.Output aliResponse))] \<and>
   map ChatCompletionsStreamResponseChoice.FinishReason
     (ChatCompletionsStreamResponse.Choices
       (streamResponseAli2OpenAI now
         (aliResponse\<lparr>AliChatResponse.Output :=
            (AliChatResponse.Output aliResponse)\<lparr>AliOutput.FinishReason := []\<rparr>\<rparr>))) =
     [Some []]"
  by (simp add: streamResponseAli2OpenAI_def Let_def)

text \<open>
  C5. When the unary handler has read and closed the vendor's body and the body decodes
  to a reply with a non-empty error code, it returns the canonical error made of the
  vendor's message, the code as type and as code, the request id as param and the
  status code of the vendor's response. It returns no usage and leaves the client
  context as it was: no header, no status and no payload is written.
\<close>

theorem vendor_error_passthrough:
  assumes "ReadAll resp = Inr responseBody" and "Close resp = None"
    and "unmarshal responseBody = Inr aliResponse" and "AliError.Code aliResponse \<noteq> []"
  shows "aliHandler errorWrapper unmarshal marshal now c resp =
      (c,
       Some \<lparr>OpenAIError =
               \<lparr>OpenAIError.Message = AliError.Message aliResponse,
                Type = AliError.Code aliResponse,
                Param = RequestId aliResponse,
                OpenAIError.Code = AliError.Code aliResponse\<rparr>,
             OpenAIErrorWithStatusCode.StatusCode = http_Response.StatusCode resp\<rparr>,
       None)"
  using assms by (simp add: aliHandler_def)

text \<open>Scenario D: the error code \<open>InvalidParameter\<close> with HTTP status 400.\<close>

theorem vendor_error_passthrough_witness:
  "aliHandler sample_errorWrapper
     (\<lambda>body. Inr \<lparr>AliError.Code = ''InvalidParameter'', AliError.Message = ''bad model'',
        RequestId = ''req-7'',
        AliChatResponse.Output = \<lparr>Text = [], AliOutput.FinishReason = []\<rparr>,
        AliChatResponse.Usage = \<lparr>InputTokens = 0, OutputTokens = 0, AliUsage.TotalTokens = 0\<rparr>\<rparr>)
     (\<lambda>response. Inr ''{}'') 1700000000 sample_Context
     \<lparr>http_Response.StatusCode = 400, ReadAll = Inr ''{...}'', Close = None\<rparr> =
     (sample_Context,
      Some \<lparr>OpenAIError = \<lparr>OpenAIError.Message = ''bad model'', Type = ''InvalidParameter'',
        Param = ''req-7'', OpenAIError.Code = ''InvalidParameter''\<rparr>,
        OpenAIErrorWithStatusCode.StatusCode = 400\<rparr>,
      None)"
  using vendor_error_passthrough
    [where resp = "\<lparr>http_Response.StatusCode = 400, ReadAll = Inr ''{...}'', Close = None\<rparr>"
       and responseBody = "''{...}''"
       and unmarshal = "\<lambda>body. Inr \<lparr>AliError.Code = ''InvalidParameter'',
        AliError.Message = ''bad model'', RequestId = ''req-7'',
        AliChatResponse.Output = \<lparr>Text = [], AliOutput.FinishReason = []\<rparr>,
        AliChatResponse.Usage = \<lparr>InputTokens = 0, OutputTokens = 0, AliUsage.TotalTokens = 0\<rparr>\<rparr>"
       and errorWrapper = sample_errorWrapper
       and marshal = "\<lambda>response. Inr ''{}''" and now = 1700000000 and c = sample_Context]
  by simp

text \<open>
  When the body cannot be closed the handler reports that instead, whatever the reply
  holds: decoding comes after closing.
\<close>

lemma aliHandler_close_failure:
  "ReadAll resp = Inr responseBody \<Longrightarrow> Close resp = Some err \<Longrightarrow>
   aliHandler errorWrapper unmarshal marshal now c resp =
     (c, Some (errorWrapper err ''close_response_body_failed'' StatusInternalServerError), None)"
  by (simp add: aliHandler_def)

section \<open>Properties of the streamed chat handler\<close>

lemma delta_content_stream [simp]:
  "delta_content (streamResponseAli2OpenAI now r) = Text (AliChatResponse.Output r)"
  by (simp add: delta_content_def streamResponseAli2OpenAI_def Let_def)

lemma delta_content_set [simp]:
  "delta_content (set_delta_content (streamResponseAli2OpenAI now r) d) = d"
  by (simp add: delta_content_def set_delta_content_def streamResponseAli2OpenAI_def Let_def)

lemma on_data_undecoded: "unmarshal data = Inl err \<Longrightarrow> on_data unmarshal marshal now data s = s"
  by (simp add: on_data_def)

lemma on_data_decoded:
  assumes "unmarshal data = Inr r" and "\<And>response. marshal response = Inr (encode response)"
  shows "rendered (ctx (on_data unmarshal marshal now data s)) =
      rendered (ctx s) @
      [''data: '' @ encode (set_delta_content (streamResponseAli2OpenAI now r)
         (TrimPrefix (Text (AliChatResponse.Output r)) (lastResponseText s)))]"
    and "lastResponseText (on_data unmarshal marshal now data s) = Text (AliChatResponse.Output r)"
  using assms by (simp_all add: on_data_def Let_def Render_def)

lemma on_data_rendered:
  "\<exists>events. rendered (ctx (on_data unmarshal marshal now data s)) = rendered (ctx s) @ events"
  by (simp add: on_data_def Let_def Render_def split: sum.split)

text \<open>
  C7. For a frame that decodes, the usage accumulator after the frame is the frame's
  input tokens, output tokens and their sum (Go's \<open>+\<close>) when the frame's output token
  count is not zero, and the accumulator as it was when that count is zero. So a frame
  whose usage fields are non-zero overwrites the accumulator, and a frame whose usage
  fields are zero leaves it unchanged; the output token count alone decides.
\<close>

theorem usage_overwrite:
  assumes "unmarshal data = Inr aliResponse"
  shows "usage (on_data unmarshal marshal now data s) =
      (if OutputTokens (AliChatResponse.Usage aliResponse) \<noteq> 0 then
         \<lparr>PromptTokens = InputTokens (AliChatResponse.Usage aliResponse),
          CompletionTokens = OutputTokens (AliChatResponse.Usage aliResponse),
          Usage.TotalTokens =
            InputTokens (AliChatResponse.Usage aliResponse) +
            OutputTokens (AliChatResponse.Usage aliResponse)\<rparr>
       else usage s)"
  using assms by (simp add: on_data_def Let_def split: sum.split)

theorem usage_overwrite_witness:
  "usage (on_data
     (\<lambda>data. Inr \<lparr>AliError.Code = [], AliError.Message = [], RequestId = ''req-1'',
        AliChatResponse.Output = \<lparr>Text = ''Hel'', AliOutput.FinishReason = ''null''\<rparr>,
        AliChatResponse.Usage = \<lparr>InputTokens = 3, OutputTokens = 4, AliUsage.TotalTokens = 0\<rparr>\<rparr>)
     (\<lambda>response. Inr ''{}'') 1700000000 ''{}''
     \<lparr>ctx = sample_Context,
      usage = \<lparr>PromptTokens = 1, CompletionTokens = 1, Usage.TotalTokens = 2\<rparr>,
      lastResponseText = []\<rparr>) =
     \<lparr>PromptTokens = 3, CompletionTokens = 4, Usage.TotalTokens = 7\<rparr> \<and>
   usage (on_data
     (\<lambda>data. Inr \<lparr>AliError.Code = [], AliError.Message = [], RequestId = ''req-1'',
        AliChatResponse.Output = \<lparr>Text = ''Hel'', AliOutput.FinishReason = ''null''\<rparr>,
        AliChatResponse.Usage = \<lparr>InputTokens = 0, OutputTokens = 0, AliUsage.TotalTokens = 0\<rparr>\<rparr>)
     (\<lambda>response. Inr ''{}'') 1700000000 ''{}''
     \<lparr>ctx = sample_Context,
      usage = \<lparr>PromptTokens = 1, CompletionTokens = 1, Usage.TotalTokens = 2\<rparr>,
      lastResponseText = []\<rparr>) =
     \<lparr>PromptTokens = 1, CompletionTokens = 1, Usage.TotalTokens = 2\<rparr>"
  using
    usage_overwrite [where unmarshal = "\<lambda>data. Inr \<lparr>AliError.Code = [], AliError.Message = [],
        RequestId = ''req-1'',
        AliChatResponse.Output = \<lparr>Text = ''Hel'', AliOutput.FinishReason = ''null''\<rparr>,
        AliChatResponse.Usage = \<lparr>InputTokens = 3, OutputTokens = 4, AliUsage.TotalTokens = 0\<rparr>\<rparr>"
      and data = "''{}''" and marshal = "\<lambda>response. Inr ''{}''" and now = 1700000000
      and s = "\<lparr>ctx = sample_Context,
      usage = \<lparr>PromptTokens = 1, CompletionTokens = 1, Usage.TotalTokens = 2\<rparr>,
      lastResponseText = []\<rparr>"]
    usage_overwrite [where unmarshal = "\<lambda>data. Inr \<lparr>AliError.Code = [], AliError.Message = [],
        RequestId = ''req-1'',
        AliChatResponse.Output = \<lparr>Text = ''Hel'', AliOutput.FinishReason = ''null''\<rparr>,
        AliChatResponse.Usage = \<lparr>InputTokens = 0, OutputTokens = 0, AliUsage.TotalTokens = 0\<rparr>\<rparr>"
      and data = "''{}''" and marshal = "\<lambda>response. Inr ''{}''" and now = 1700000000
      and s = "\<lparr>ctx = sample_Context,
      usage = \<lparr>PromptTokens = 1, CompletionTokens = 1, Usage.TotalTokens = 2\<rparr>,
      lastResponseText = []\<rparr>"]
  by simp

text \<open>
  The test reads the output token count only: a frame that reports input tokens and no
  output tokens leaves the accumulator as it was.
\<close>

lemma usage_input_only:
  "unmarshal data = Inr aliResponse \<Longrightarrow> OutputTokens (AliChatResponse.Usage aliResponse) = 0 \<Longrightarrow>
   usage (on_data unmarshal marshal now data s) = usage s"
  by (simp add: on_data_def Let_def split: sum.split)

lemma consumer_decoded:
  assumes enc: "\<And>response. marshal response = Inr (encode response)"
  shows "map (\<lambda>token. unmarshal (fst token)) ds = map Inr frames \<Longrightarrow>
   rendered (ctx (consumer unmarshal marshal ds s)) =
     rendered (ctx s) @
     map (\<lambda>(token, r, d).
            ''data: '' @ encode (set_delta_content (streamResponseAli2OpenAI (snd token) r) d))
       (zip ds (zip frames
          (deltas (lastResponseText s) (map (\<lambda>r. Text (AliChatResponse.Output r)) frames)))) @
     [''data: [DONE]'']"
proof (induction ds arbitrary: frames s)
  case Nil
  then show ?case by (simp add: Render_def)
next
  case (Cons token ds)
  obtain data now where token: "token = (data, now)" by (cases token)
  from Cons.prems obtain r frs where frames: "frames = r # frs"
    and r: "unmarshal data = Inr r"
    and rest: "map (\<lambda>token. unmarshal (fst token)) ds = map Inr frs"
    by (cases frames) (auto simp: token)
  note step = on_data_decoded [where unmarshal = unmarshal and data = data and r = r
      and marshal = marshal and encode = encode, OF r enc]
  show ?case
    using Cons.IH [OF rest, of "on_data unmarshal marshal now data s"]
    by (simp add: token frames step)
qed

lemma concat_deltas:
  "successively prefix (previous # Ss) \<Longrightarrow>
   previous @ concat (deltas previous Ss) = last (previous # Ss)"
proof (induction Ss arbitrary: previous)
  case Nil
  then show ?case by simp
next
  case (Cons S Ss)
  then have p: "prefix previous S" and rest: "successively prefix (S # Ss)" by simp_all
  from p have eq: "previous @ TrimPrefix S previous = S"
    by (auto simp: TrimPrefix_def prefix_def)
  have "previous @ concat (deltas previous (S # Ss)) =
      (previous @ TrimPrefix S previous) @ concat (deltas S Ss)"
    by simp
  also have "\<dots> = S @ concat (deltas S Ss)"
    by (simp only: eq)
  also have "\<dots> = last (S # Ss)"
    by (rule Cons.IH [OF rest])
  finally show ?case by simp
qed

lemma length_deltas [simp]: "length (deltas previous Ss) = length Ss"
  by (induction Ss arbitrary: previous) simp_all

text \<open>
  C1. Let every payload the producer passes on decode, to the frames \<open>frames\<close>, and let
  the cumulative text of each frame be a prefix of the next one's. Then the handler
  renders one chunk per frame, in order, followed by the terminal frame; the delta of
  each chunk is the frame's cumulative text with the cumulative text of the frame before
  removed as a prefix (the empty text before the first); and the deltas concatenated are
  the cumulative text of the last frame. The encoder is taken to succeed on every chunk,
  as \<open>json.Marshal\<close> does on this type: \<open>encode\<close> is the text it yields.
\<close>

theorem delta_reconstruction:
  assumes "map (\<lambda>token. unmarshal (fst token)) (producer tokens) = map Inr frames"
    and "successively prefix (map (\<lambda>r. Text (AliChatResponse.Output r)) frames)"
    and "\<And>response. marshal response = Inr (encode response)"
  shows "rendered (fst (aliStreamHandler errorWrapper unmarshal marshal c tokens resp)) =
      rendered c @
      map (\<lambda>(token, r, d).
             ''data: '' @ encode (set_delta_content (streamResponseAli2OpenAI (snd token) r) d))
        (zip (producer tokens) (zip frames
           (deltas [] (map (\<lambda>r. Text (AliChatResponse.Output r)) frames)))) @
      [''data: [DONE]''] \<and>
    length (deltas [] (map (\<lambda>r. Text (AliChatResponse.Output r)) frames)) = length frames \<and>
    concat (deltas [] (map (\<lambda>r. Text (AliChatResponse.Output r)) frames)) =
      (if frames = [] then [] else Text (AliChatResponse.Output (last frames)))"
proof -
  have "successively prefix ([] # map (\<lambda>r. Text (AliChatResponse.Output r)) frames)"
    using assms(2) by (cases frames) simp_all
  from concat_deltas [OF this]
  have "concat (deltas [] (map (\<lambda>r. Text (AliChatResponse.Output r)) frames)) =
      (if frames = [] then [] else Text (AliChatResponse.Output (last frames)))"
    by (simp add: last_map)
  moreover have "rendered (fst (aliStreamHandler errorWrapper unmarshal marshal c tokens resp)) =
      rendered (ctx (consumer unmarshal marshal (producer tokens)
        \<lparr>ctx = c, usage = zero_Usage, lastResponseText = []\<rparr>))"
    by (simp add: aliStreamHandler_def Let_def split: option.split)
  ultimately show ?thesis
    using consumer_decoded [where marshal = marshal and encode = encode, OF assms(3) assms(1),
        of "\<lparr>ctx = c, usage = zero_Usage, lastResponseText = []\<rparr>"]
    by simp
qed

text \<open>Scenario B, with a blank keep-alive line among the tokens.\<close>

theorem delta_reconstruction_witness:
  "rendered (fst (aliStreamHandler sample_errorWrapper sample_unmarshal sample_marshal sample_Context
      [(''data:Hel'', 1700000000), ([], 1700000000), (''data:Hello'', 1700000001),
       (''data:Hello!'', 1700000001)]
      \<lparr>http_Response.StatusCode = 200, ReadAll = Inr [], Close = None\<rparr>)) =
     [''data: Hel'', ''data: lo'', ''data: !'', ''data: [DONE]''] \<and>
   concat (deltas [] [''Hel'', ''Hello'', ''Hello!'']) = ''Hello!''"
  using delta_reconstruction
    [where unmarshal = sample_unmarshal
       and tokens = "[(''data:Hel'', 1700000000), ([], 1700000000), (''data:Hello'', 1700000001),
         (''data:Hello!'', 1700000001)]"
       and frames = "[sample_frame ''Hel'', sample_frame ''Hello'', sample_frame ''Hello!'']"
       and errorWrapper = sample_errorWrapper and marshal = sample_marshal
       and encode = delta_content and c = sample_Context
       and resp = "\<lparr>http_Response.StatusCode = 200, ReadAll = Inr [], Close = None\<rparr>"]
  by (simp add: sample_unmarshal_def sample_frame_def sample_Context_def TrimPrefix_def
      sample_marshal_def delta_content_def set_delta_content_def streamResponseAli2OpenAI_def
      Let_def)

lemma producer_append: "producer (xs @ ys) = producer xs @ producer ys"
  by (induction xs rule: producer.induct) simp_all

lemma consumer_skip:
  "unmarshal payload = Inl err \<Longrightarrow>
   consumer unmarshal marshal (pre @ (payload, now) # post) s =
     consumer unmarshal marshal (pre @ post) s"
  by (induction pre arbitrary: s) (auto simp: on_data_undecoded)

lemma consumer_done:
  "\<exists>events. rendered (ctx (consumer unmarshal marshal ds s)) =
     rendered (ctx s) @ events @ [''data: [DONE]'']"
proof (induction ds arbitrary: s)
  case Nil
  then show ?case by (simp add: Render_def)
next
  case (Cons token ds)
  obtain data now where token: "token = (data, now)" by (cases token)
  obtain e1 where e1: "rendered (ctx (on_data unmarshal marshal now data s)) = rendered (ctx s) @ e1"
    using on_data_rendered by blast
  obtain e2 where "rendered (ctx (consumer unmarshal marshal ds (on_data unmarshal marshal now data s))) =
      rendered (ctx (on_data unmarshal marshal now data s)) @ e2 @ [''data: [DONE]'']"
    using Cons.IH by blast
  with e1 have "rendered (ctx (consumer unmarshal marshal (token # ds) s)) =
      rendered (ctx s) @ (e1 @ e2) @ [''data: [DONE]'']"
    by (simp add: token)
  then show ?case by blast
qed

text \<open>
  C6, as the code has it. A frame whose payload does not decode is skipped and the
  stream goes on: the handler does, and returns, what it does and returns when that
  frame is not sent at all, so the frames after it are processed as ever. When the
  producer is exhausted the last thing the handler renders is \<open>data: [DONE]\<close>, and the
  loop ends there. It then closes the vendor's body: when that succeeds it returns the
  accumulated usage and no error; when that fails it returns the error wrapped with the
  tag \<open>close_response_body_failed\<close> and status 500, and no usage.
\<close>

theorem bad_frame_skipped:
  assumes "unmarshal payload = Inl err"
  shows "aliStreamHandler errorWrapper unmarshal marshal c
        (pre @ (''data:'' @ payload, now) # post) resp =
      aliStreamHandler errorWrapper unmarshal marshal c (pre @ post) resp \<and>
    (\<exists>events. rendered (fst (aliStreamHandler errorWrapper unmarshal marshal c tokens resp)) =
       rendered c @ events @ [''data: [DONE]'']) \<and>
    snd (aliStreamHandler errorWrapper unmarshal marshal c tokens resp) =
      (case Close resp of
         None \<Rightarrow>
           (None, Some (usage (consumer unmarshal marshal (producer tokens)
              \<lparr>ctx = c, usage = zero_Usage, lastResponseText = []\<rparr>)))
       | Some closeErr \<Rightarrow>
           (Some (errorWrapper closeErr ''close_response_body_failed'' StatusInternalServerError),
            None))"
proof -
  have skip: "consumer unmarshal marshal (producer (pre @ (''data:'' @ payload, now) # post)) s =
      consumer unmarshal marshal (producer (pre @ post)) s" for s
    using consumer_skip [where unmarshal = unmarshal and payload = payload and err = err, OF assms]
    by (simp add: producer_append)
  have fin: "\<exists>events. rendered (fst (aliStreamHandler errorWrapper unmarshal marshal c tokens resp)) =
       rendered c @ events @ [''data: [DONE]'']"
    using consumer_done [of unmarshal marshal "producer tokens"
        "\<lparr>ctx = c, usage = zero_Usage, lastResponseText = []\<rparr>"]
    by (simp add: aliStreamHandler_def Let_def split: option.split)
  from skip fin show ?thesis
    by (simp add: aliStreamHandler_def Let_def split: option.split)
qed

theorem bad_frame_skipped_witness:
  "rendered (fst (aliStreamHandler sample_errorWrapper sample_unmarshal sample_marshal sample_Context
      [(''data:Hel'', 1700000000), (''data:oops'', 1700000000), (''data:Hello'', 1700000001)]
      \<lparr>http_Response.StatusCode = 200, ReadAll = Inr [], Close = None\<rparr>)) =
     [''data: Hel'', ''data: lo'', ''data: [DONE]''] \<and>
   snd (aliStreamHandler sample_errorWrapper sample_unmarshal sample_marshal sample_Context
      [(''data:Hel'', 1700000000), (''data:oops'', 1700000000), (''data:Hello'', 1700000001)]
      \<lparr>http_Response.StatusCode = 200, ReadAll = Inr [], Close = None\<rparr>) =
     (None, Some \<lparr>PromptTokens = 3, CompletionTokens = 5, Usage.TotalTokens = 8\<rparr>)"
  using bad_frame_skipped
    [where unmarshal = sample_unmarshal and payload = "''oops''"
       and err = "Err ''invalid character''"
       and resp = "\<lparr>http_Response.StatusCode = 200, ReadAll = Inr [], Close = None\<rparr>"
       and errorWrapper = sample_errorWrapper and marshal = sample_marshal
       and c = sample_Context
       and pre = "[(''data:Hel'', 1700000000)]" and now = 1700000000
       and post = "[(''data:Hello'', 1700000001)]"
       and tokens = "[(''data:Hel'', 1700000000), (''data:oops'', 1700000000),
         (''data:Hello'', 1700000001)]"]
  by (simp add: sample_unmarshal_def sample_frame_def sample_Context_def TrimPrefix_def
      sample_marshal_def delta_content_def set_delta_content_def streamResponseAli2OpenAI_def
      Let_def aliStreamHandler_def on_data_def Render_def zero_Usage_def)

text \<open>
  The same stream when the vendor's body cannot be closed: the frames and the terminal
  frame are rendered, and the handler returns an error and no usage.
\<close>

theorem bad_frame_skipped_counterexample:
  "rendered (fst (aliStreamHandler sample_errorWrapper sample_unmarshal sample_marshal sample_Context
      [(''data:Hel'', 1700000000), (''data:oops'', 1700000000), (''data:Hello'', 1700000001)]
      \<lparr>http_Response.StatusCode = 200, ReadAll = Inr [],
       Close = Some (Err ''connection reset'')\<rparr>)) =
     [''data: Hel'', ''data: lo'', ''data: [DONE]''] \<and>
   snd (aliStreamHandler sample_errorWrapper sample_unmarshal sample_marshal sample_Context
      [(''data:Hel'', 1700000000), (''data:oops'', 1700000000), (''data:Hello'', 1700000001)]
      \<lparr>http_Response.StatusCode = 200, ReadAll = Inr [],
       Close = Some (Err ''connection reset'')\<rparr>) =
     (Some \<lparr>OpenAIError =
         \<lparr>OpenAIError.Message = ''connection reset'', Type = ''one_api_error'', Param = [],
          OpenAIError.Code = ''close_response_body_failed''\<rparr>,
        OpenAIErrorWithStatusCode.StatusCode = 500\<rparr>,
      None)"
  by (simp add: sample_unmarshal_def sample_frame_def sample_Context_def TrimPrefix_def
      sample_marshal_def delta_content_def set_delta_content_def streamResponseAli2OpenAI_def
      Let_def aliStreamHandler_def on_data_def Render_def zero_Usage_def sample_errorWrapper_def
      StatusInternalServerError_def)

section \<open>Properties of the text-to-speech relay\<close>

lemma Write_ok:
  "write_fault c = None \<Longrightarrow> Write c chunk = (c\<lparr>written := written c @ [chunk]\<rparr>, None)"
  by (simp add: Write_def)

lemma chunkSize_pos: "0 < chunkSize"
  by (simp add: chunkSize_def)

lemma chunk_count_less: "(k < chunk_count n) = (k * chunkSize < n)"
proof -
  have "(k < chunk_count n) = (Suc k \<le> (n + (chunkSize - 1)) div chunkSize)"
    by (auto simp: chunk_count_def)
  also have "\<dots> = (Suc k * chunkSize \<le> n + (chunkSize - 1))"
    by (simp only: less_eq_div_iff_mult_less_eq [OF chunkSize_pos])
  also have "\<dots> = (k * chunkSize < n)"
    using chunkSize_pos by auto
  finally show ?thesis .
qed

lemma chunk_count_cover: "n \<le> chunk_count n * chunkSize"
proof -
  have "(n + (chunkSize - 1)) mod chunkSize < chunkSize"
    using chunkSize_pos by simp
  moreover have "(n + (chunkSize - 1)) div chunkSize * chunkSize +
      (n + (chunkSize - 1)) mod chunkSize = n + (chunkSize - 1)"
    by simp
  ultimately show ?thesis unfolding chunk_count_def by linarith
qed

text \<open>One turn of the inner loop, when the client accepts the write.\<close>

lemma write_chunks_step:
  assumes "write_fault c = None" and "i < length audioData"
  shows "write_chunks i audioData c =
    write_chunks (i + chunkSize) audioData
      (c\<lparr>written := written c @ [take chunkSize (drop i audioData)]\<rparr>)"
  using assms by (subst write_chunks.simps) (simp add: Let_def Write_ok)

lemma write_chunks_ok:
  "write_fault c = None \<Longrightarrow>
   write_chunks (k * chunkSize) audioData c =
     (c\<lparr>written := written c @
          map (\<lambda>j. take chunkSize (drop (j * chunkSize) audioData))
            [k ..< chunk_count (length audioData)]\<rparr>, None)"
proof (induction "chunk_count (length audioData) - k" arbitrary: k c)
  case 0
  then have "\<not> k * chunkSize < length audioData"
    by (simp add: chunk_count_less [symmetric])
  with 0 show ?case
    by (subst write_chunks.simps) simp
next
  case (Suc m)
  then have lt: "k < chunk_count (length audioData)" by simp
  then have inb: "k * chunkSize < length audioData"
    by (simp add: chunk_count_less)
  from Suc.hyps(2) have m: "m = chunk_count (length audioData) - Suc k"
    by simp
  let ?c = "c\<lparr>written := written c @ [take chunkSize (drop (k * chunkSize) audioData)]\<rparr>"
  have w: "write_fault ?c = None"
    using Suc.prems by simp
  have "write_chunks (k * chunkSize) audioData c =
      write_chunks (Suc k * chunkSize) audioData ?c"
    using write_chunks_step [OF Suc.prems inb] by (simp add: add.commute)
  also have "\<dots> = (?c\<lparr>written := written ?c @
          map (\<lambda>j. take chunkSize (drop (j * chunkSize) audioData))
            [Suc k ..< chunk_count (length audioData)]\<rparr>, None)"
    by (rule Suc.hyps(1) [OF m w])
  finally show ?case
    by (simp add: upt_conv_Cons [OF lt])
qed

lemma write_chunks_chunks_of:
  "write_fault c = None \<Longrightarrow>
   write_chunks 0 audioData c = (c\<lparr>written := written c @ chunks_of audioData\<rparr>, None)"
  using write_chunks_ok [of c 0 audioData] by (simp add: chunks_of_def)

lemma concat_slices:
  "concat (map (\<lambda>j. take n (drop (j * n) xs)) [0 ..< k]) = take (k * n) xs"
proof (induction k)
  case 0
  then show ?case by simp
next
  case (Suc k)
  have "take (k * n) xs @ take n (drop (k * n) xs) = take (k * n + n) xs"
    by (simp add: take_add)
  with Suc show ?case by (simp add: add.commute)
qed

text \<open>The chunks of a frame, put together again, are the frame.\<close>

lemma concat_chunks_of: "concat (chunks_of audioData) = audioData"
  by (simp add: chunks_of_def concat_slices chunk_count_cover)

lemma chunks_of_bounds:
  assumes "chunk \<in> set (chunks_of audioData)"
  shows "0 < length chunk \<and> length chunk \<le> chunkSize"
proof -
  from assms obtain j where j: "j < chunk_count (length audioData)"
    and chunk: "chunk = take chunkSize (drop (j * chunkSize) audioData)"
    by (auto simp: chunks_of_def)
  from j have "j * chunkSize < length audioData"
    by (simp add: chunk_count_less)
  with chunk chunkSize_pos show ?thesis by simp
qed

lemma binary_frames_simps [simp]:
  "binary_frames unmarshal [] = []"
  "binary_frames unmarshal (ReadError err # reads) = []"
  "binary_frames unmarshal (ReadMessage messageType audioData # reads) =
     (if messageType = TextMessage \<and> Event (Header (unmarshal audioData)) = ''task-finished'' then []
      else if messageType = BinaryMessage then audioData # binary_frames unmarshal reads
      else binary_frames unmarshal reads)"
  by (simp_all add: binary_frames_def)

lemma read_loop_written:
  "write_fault c = None \<Longrightarrow>
   written (fst (read_loop errorWrapper unmarshal reads tts_usage c)) =
     written c @ concat (map chunks_of (binary_frames unmarshal reads))"
proof (induction reads arbitrary: c)
  case Nil
  then show ?case by simp
next
  case (Cons r reads)
  show ?case
  proof (cases r)
    case (ReadError err)
    then show ?thesis by simp
  next
    case (ReadMessage messageType audioData)
    have w: "write_fault (c\<lparr>written := written c @ chunks_of audioData\<rparr>) = None"
      using Cons.prems by simp
    from Cons.IH [OF Cons.prems] Cons.IH [OF w] show ?thesis
      by (simp add: ReadMessage Let_def write_chunks_chunks_of [OF Cons.prems]
          TextMessage_def BinaryMessage_def)
  qed
qed

lemma concat_concat_chunks: "concat (concat (map chunks_of frames)) = concat frames"
  by (induction frames) (simp_all add: concat_chunks_of)

text \<open>
  C8. While the client accepts the writes, the relay's loop writes, for the binary
  frames it receives and in their order, the successive chunks of each frame: every chunk
  holds at least one and at most 1024 bytes, and the bytes written, put together, are
  the bytes of the frames put together. No byte is dropped, duplicated or changed.
\<close>

theorem byte_fidelity:
  assumes "write_fault c = None"
  shows "written (fst (read_loop errorWrapper unmarshal reads tts_usage c)) =
      written c @ concat (map chunks_of (binary_frames unmarshal reads)) \<and>
    concat (written (fst (read_loop errorWrapper unmarshal reads tts_usage c))) =
      concat (written c) @ concat (binary_frames unmarshal reads) \<and>
    (\<forall>chunk \<in> set (concat (map chunks_of (binary_frames unmarshal reads))).
       0 < length chunk \<and> length chunk \<le> chunkSize)"
proof -
  have "\<forall>chunk \<in> set (concat (map chunks_of (binary_frames unmarshal reads))).
       0 < length chunk \<and> length chunk \<le> chunkSize"
    using chunks_of_bounds by auto
  with read_loop_written [OF assms, of errorWrapper unmarshal reads tts_usage] show ?thesis
    by (simp add: concat_concat_chunks)
qed

text \<open>A frame of 1025 bytes and a frame of two bytes, then the completion frame.\<close>

theorem byte_fidelity_witness:
  "write_fault sample_Context = None \<and>
   written (fst (read_loop sample_errorWrapper sample_control
      [ReadMessage BinaryMessage (replicate 1025 CHR ''a''), ReadMessage BinaryMessage ''bc'',
       ReadMessage TextMessage ''task-finished'']
      zero_Usage sample_Context)) =
     [replicate 1024 CHR ''a'', ''a'', ''bc''] \<and>
   map length (written (fst (read_loop sample_errorWrapper sample_control
      [ReadMessage BinaryMessage (replicate 1025 CHR ''a''), ReadMessage BinaryMessage ''bc'',
       ReadMessage TextMessage ''task-finished'']
      zero_Usage sample_Context))) = [1024, 1, 2]"
proof -
  have h: "write_fault sample_Context = None"
    by (simp add: sample_Context_def)
  have w0: "written sample_Context = []"
    by (simp add: sample_Context_def)
  have frames: "binary_frames sample_control
      [ReadMessage BinaryMessage (replicate 1025 CHR ''a''), ReadMessage BinaryMessage ''bc'',
       ReadMessage TextMessage ''task-finished''] = [replicate 1025 CHR ''a'', ''bc'']"
    by (simp add: sample_control_def TextMessage_def BinaryMessage_def)
  have c1: "chunks_of (replicate 1025 CHR ''a'') = [replicate 1024 CHR ''a'', ''a'']"
  proof -
    have "[0 ..< 2] = [0, 1 :: nat]" by (simp add: upt_rec)
    then show ?thesis by (simp add: chunks_of_def chunk_count_def chunkSize_def)
  qed
  have c2: "chunks_of ''bc'' = [''bc'']"
    by (simp add: chunks_of_def chunk_count_def chunkSize_def)
  from byte_fidelity [OF h, of sample_errorWrapper sample_control
      "[ReadMessage BinaryMessage (replicate 1025 CHR ''a''), ReadMessage BinaryMessage ''bc'',
       ReadMessage TextMessage ''task-finished'']" zero_Usage]
  show ?thesis
    by (simp only: frames h) (simp del: read_loop.simps add: c1 c2 w0)
qed

text \<open>
  The same for the whole call: no frame is received when the socket cannot be opened or
  the request cannot be sent.
\<close>

lemma aliTTSHandler_written:
  assumes "write_fault c = None"
  shows "written (fst (aliTTSHandler errorWrapper unmarshal c conn)) =
    written c @
    concat (map chunks_of
      (if Dial conn = None \<and> WriteJSON conn = None then binary_frames unmarshal (Reads conn)
       else []))"
  using read_loop_written [OF assms, of errorWrapper unmarshal "Reads conn" zero_Usage]
  by (auto simp: aliTTSHandler_def split: option.splits)

text \<open>
  When the client refuses a write the relay stops there with the error tagged
  \<open>write_audio_failed\<close>; what is left of the frame is not written.
\<close>

lemma write_fault_aborts:
  "read_loop sample_errorWrapper sample_control
     [ReadMessage BinaryMessage (replicate 1025 CHR ''a''),
      ReadMessage TextMessage ''task-finished'']
     zero_Usage (sample_Context\<lparr>write_fault := Some (1, Err ''broken pipe'')\<rparr>) =
     (sample_Context\<lparr>written := [replicate 1024 CHR ''a''],
        write_fault := Some (1, Err ''broken pipe'')\<rparr>,
      Some (Some (sample_errorWrapper (Err ''broken pipe'') ''write_audio_failed''
              StatusInternalServerError), None))"
  by (simp add: write_chunks.simps Write_def sample_Context_def BinaryMessage_def TextMessage_def
      chunkSize_def Let_def)

lemma read_loop_continue:
  assumes "\<not> terminal unmarshal (ReadMessage messageType audioData)"
    and "snd (read_loop errorWrapper unmarshal (ReadMessage messageType audioData # reads) u0 c) =
      Some (None, u)"
  shows "\<exists>c'. snd (read_loop errorWrapper unmarshal reads u0 c') = Some (None, u)"
  using assms by (auto simp: Let_def split: if_splits prod.splits option.splits)

lemma read_loop_success:
  "snd (read_loop errorWrapper unmarshal reads u0 c) = Some (None, u) \<Longrightarrow>
   (\<exists>pre audioData rest.
      reads = pre @ ReadMessage TextMessage audioData # rest \<and>
      \<not> list_ex (terminal unmarshal) pre \<and>
      Event (Header (unmarshal audioData)) = ''task-finished'' \<and>
      u = Some (u0\<lparr>Usage.TotalTokens :=
                 Characters (AliPayload.Usage (Payload (unmarshal audioData)))\<rparr>)) \<or>
   (\<exists>pre rest.
      reads = pre @ ReadError io_EOF # rest \<and> \<not> list_ex (terminal unmarshal) pre \<and>
      u = Some u0)"
proof (induction reads arbitrary: c)
  case Nil
  then show ?case by simp
next
  case (Cons r reads)
  show ?case
  proof (cases "terminal unmarshal r")
    case True
    show ?thesis
    proof (cases r)
      case (ReadError err)
      with Cons.prems have "err = io_EOF" and "u = Some u0"
        by (auto split: if_splits)
      with ReadError have "r # reads = [] @ ReadError io_EOF # reads \<and>
          \<not> list_ex (terminal unmarshal) [] \<and> u = Some u0"
        by simp
      then show ?thesis by blast
    next
      case (ReadMessage messageType audioData)
      with True have t: "messageType = TextMessage"
        and e: "Event (Header (unmarshal audioData)) = ''task-finished''"
        by simp_all
      with Cons.prems ReadMessage
      have "u = Some (u0\<lparr>Usage.TotalTokens :=
                 Characters (AliPayload.Usage (Payload (unmarshal audioData)))\<rparr>)"
        by (simp add: Let_def)
      with ReadMessage t e have "r # reads = [] @ ReadMessage TextMessage audioData # reads \<and>
          \<not> list_ex (terminal unmarshal) [] \<and>
          Event (Header (unmarshal audioData)) = ''task-finished'' \<and>
          u = Some (u0\<lparr>Usage.TotalTokens :=
                 Characters (AliPayload.Usage (Payload (unmarshal audioData)))\<rparr>)"
        by simp
      then show ?thesis by blast
    qed
  next
    case False
    then obtain messageType audioData where r: "r = ReadMessage messageType audioData"
      by (cases r) simp_all
    with False Cons.prems obtain c' where
      "snd (read_loop errorWrapper unmarshal reads u0 c') = Some (None, u)"
      using read_loop_continue by blast
    from Cons.IH [OF this] consider
      (fin) pre audioData rest where
        "reads = pre @ ReadMessage TextMessage audioData # rest"
        "\<not> list_ex (terminal unmarshal) pre"
        "Event (Header (unmarshal audioData)) = ''task-finished''"
        "u = Some (u0\<lparr>Usage.TotalTokens :=
                 Characters (AliPayload.Usage (Payload (unmarshal audioData)))\<rparr>)"
      | (eof) pre rest where
        "reads = pre @ ReadError io_EOF # rest" "\<not> list_ex (terminal unmarshal) pre"
        "u = Some u0"
      by blast
    then show ?thesis
    proof cases
      case fin
      with False have "r # reads = (r # pre) @ ReadMessage TextMessage audioData # rest \<and>
          \<not> list_ex (terminal unmarshal) (r # pre) \<and>
          Event (Header (unmarshal audioData)) = ''task-finished'' \<and>
          u = Some (u0\<lparr>Usage.TotalTokens :=
                 Characters (AliPayload.Usage (Payload (unmarshal audioData)))\<rparr>)"
        by simp
      then show ?thesis by blast
    next
      case eof
      with False have "r # reads = (r # pre) @ ReadError io_EOF # rest \<and>
          \<not> list_ex (terminal unmarshal) (r # pre) \<and> u = Some u0"
        by simp
      then show ?thesis by blast
    qed
  qed
qed

text \<open>
  C9, as the code has it. The relay returns success, that is no error, on two exit
  paths only. One is the receipt of a text frame whose event is \<open>task-finished\<close>, the
  first read that ends the loop: the usage returned then has \<open>total_tokens\<close> equal to the
  character count of that frame. The other is the end of the stream, \<open>io.EOF\<close> from the
  read, with no completion frame before it: the usage returned then is the zero usage.
\<close>

theorem tts_success_paths:
  assumes "snd (aliTTSHandler errorWrapper unmarshal c conn) = Some (None, u)"
  shows "(\<exists>pre audioData rest.
      Reads conn = pre @ ReadMessage TextMessage audioData # rest \<and>
      \<not> list_ex (terminal unmarshal) pre \<and>
      Event (Header (unmarshal audioData)) = ''task-finished'' \<and>
      u = Some (zero_Usage\<lparr>Usage.TotalTokens :=
                 Characters (AliPayload.Usage (Payload (unmarshal audioData)))\<rparr>)) \<or>
   (\<exists>pre rest.
      Reads conn = pre @ ReadError io_EOF # rest \<and> \<not> list_ex (terminal unmarshal) pre \<and>
      u = Some zero_Usage)"
proof -
  from assms have "snd (read_loop errorWrapper unmarshal (Reads conn) zero_Usage c) = Some (None, u)"
    by (auto simp: aliTTSHandler_def split: option.splits)
  then show ?thesis by (rule read_loop_success)
qed

theorem tts_success_paths_witness:
  "snd (aliTTSHandler sample_errorWrapper sample_control sample_Context
     \<lparr>Dial = None, WriteJSON = None,
      Reads = [ReadMessage BinaryMessage ''RIFF'', ReadMessage TextMessage ''task-finished'']\<rparr>) =
     Some (None, Some (zero_Usage\<lparr>Usage.TotalTokens := 42\<rparr>)) \<and>
   ((\<exists>pre audioData rest.
      [ReadMessage BinaryMessage ''RIFF'', ReadMessage TextMessage ''task-finished''] =
        pre @ ReadMessage TextMessage audioData # rest \<and>
      \<not> list_ex (terminal sample_control) pre \<and>
      Event (Header (sample_control audioData)) = ''task-finished'' \<and>
      Some (zero_Usage\<lparr>Usage.TotalTokens := 42\<rparr>) =
        Some (zero_Usage\<lparr>Usage.TotalTokens :=
                 Characters (AliPayload.Usage (Payload (sample_control audioData)))\<rparr>)) \<or>
    (\<exists>pre rest.
      [ReadMessage BinaryMessage ''RIFF'', ReadMessage TextMessage ''task-finished''] =
        pre @ ReadError io_EOF # rest \<and>
      \<not> list_ex (terminal sample_control) pre \<and>
      Some (zero_Usage\<lparr>Usage.TotalTokens := 42\<rparr>) = Some zero_Usage))"
proof -
  have h: "snd (aliTTSHandler sample_errorWrapper sample_control sample_Context
     \<lparr>Dial = None, WriteJSON = None,
      Reads = [ReadMessage BinaryMessage ''RIFF'', ReadMessage TextMessage ''task-finished'']\<rparr>) =
     Some (None, Some (zero_Usage\<lparr>Usage.TotalTokens := 42\<rparr>))"
    by (simp add: aliTTSHandler_def write_chunks.simps Write_def sample_Context_def
      BinaryMessage_def TextMessage_def chunkSize_def Let_def sample_control_def)
  from tts_success_paths [OF h] h show ?thesis by simp
qed

text \<open>
  The stream ends after one audio frame and no completion frame was sent: the relay
  returns no error, and the zero usage.
\<close>

theorem tts_success_paths_counterexample:
  "aliTTSHandler sample_errorWrapper sample_control sample_Context
     \<lparr>Dial = None, WriteJSON = None,
      Reads = [ReadMessage BinaryMessage ''RIFF'', ReadError io_EOF]\<rparr> =
     (sample_Context\<lparr>written := [''RIFF'']\<rparr>,
      Some (None, Some \<lparr>PromptTokens = 0, CompletionTokens = 0, Usage.TotalTokens = 0\<rparr>))"
  by (simp add: aliTTSHandler_def write_chunks.simps Write_def sample_Context_def
      BinaryMessage_def TextMessage_def chunkSize_def Let_def zero_Usage_def)

text \<open>
  Both paths are taken: while the client accepts the writes, the first read that ends
  the loop decides, a completion frame by its character count and the end of the stream
  by the usage so far.
\<close>

lemma read_loop_skip:
  assumes "\<not> list_ex (terminal unmarshal) pre" and "write_fault c = None"
  shows "\<exists>c'. read_loop errorWrapper unmarshal (pre @ reads) u0 c =
      read_loop errorWrapper unmarshal reads u0 c' \<and> write_fault c' = None"
  using assms
proof (induction pre arbitrary: c)
  case Nil
  then show ?case by auto
next
  case (Cons r pre)
  then obtain messageType audioData where r: "r = ReadMessage messageType audioData"
    by (cases r) simp_all
  have w: "write_fault (c\<lparr>written := written c @ chunks_of audioData\<rparr>) = None"
    using Cons.prems by simp
  from Cons.prems have pre: "\<not> list_ex (terminal unmarshal) pre" by simp
  from Cons.prems r Cons.IH [OF pre Cons.prems(2)] Cons.IH [OF pre w] show ?case
    by (auto simp: Let_def write_chunks_chunks_of)
qed

lemma completion_returns_usage:
  assumes "\<not> list_ex (terminal unmarshal) pre" and "write_fault c = None"
    and "Event (Header (unmarshal audioData)) = ''task-finished''"
  shows "snd (read_loop errorWrapper unmarshal (pre @ ReadMessage TextMessage audioData # rest) u0 c) =
    Some (None, Some (u0\<lparr>Usage.TotalTokens :=
                 Characters (AliPayload.Usage (Payload (unmarshal audioData)))\<rparr>))"
proof -
  from read_loop_skip [OF assms(1,2)] obtain c' where
    "read_loop errorWrapper unmarshal (pre @ ReadMessage TextMessage audioData # rest) u0 c =
      read_loop errorWrapper unmarshal (ReadMessage TextMessage audioData # rest) u0 c'"
    by blast
  with assms(3) show ?thesis by (simp add: Let_def)
qed

lemma end_of_stream_returns_usage:
  assumes "\<not> list_ex (terminal unmarshal) pre" and "write_fault c = None"
  shows "snd (read_loop errorWrapper unmarshal (pre @ ReadError io_EOF # rest) u0 c) =
    Some (None, Some u0)"
proof -
  from read_loop_skip [OF assms] obtain c' where
    "read_loop errorWrapper unmarshal (pre @ ReadError io_EOF # rest) u0 c =
      read_loop errorWrapper unmarshal (ReadError io_EOF # rest) u0 c'"
    by blast
  then show ?thesis by simp
qed

end
